theory Spec2Isabelle
  imports Main "HOL-Library.Word" "HOL-Library.Sublist"
begin

section \<open>JavaScript strings and the library functions the server calls\<close>

text \<open>
  A JavaScript string is a sequence of 16-bit code units. The literals of the source are
  ASCII and are written through \<open>js\<close>; template literals are concatenations.
\<close>

type_synonym js_string = "16 word list"

definition js :: "string \<Rightarrow> js_string" where
  "js s = map of_char s"

text \<open>\<open>String.prototype.indexOf\<close>: the first position at which the needle starts, or -1.\<close>

fun indexOf_from :: "js_string \<Rightarrow> js_string \<Rightarrow> nat \<Rightarrow> int" where
  "indexOf_from [] needle i = (if needle = [] then int i else - 1)"
| "indexOf_from (c # cs) needle i =
     (if prefix needle (c # cs) then int i else indexOf_from cs needle (Suc i))"

definition indexOf :: "js_string \<Rightarrow> js_string \<Rightarrow> int" where
  "indexOf s needle = indexOf_from s needle 0"

text \<open>\<open>Array.prototype.indexOf\<close> (strict equality on the elements).\<close>

fun arrayIndexOf_from :: "'a list \<Rightarrow> 'a \<Rightarrow> nat \<Rightarrow> int" where
  "arrayIndexOf_from [] v i = - 1"
| "arrayIndexOf_from (x # xs) v i = (if x = v then int i else arrayIndexOf_from xs v (Suc i))"

definition arrayIndexOf :: "'a list \<Rightarrow> 'a \<Rightarrow> int" where
  "arrayIndexOf xs v = arrayIndexOf_from xs v 0"

text \<open>
  The code units that \<open>trim\<close> and \<open>parseInt\<close> skip: ECMAScript's WhiteSpace and
  LineTerminator.
\<close>

definition isWhiteSpace :: "16 word \<Rightarrow> bool" where
  "isWhiteSpace c \<longleftrightarrow>
     c = 0x09 \<or> c = 0x0A \<or> c = 0x0B \<or> c = 0x0C \<or> c = 0x0D \<or> c = 0x20 \<or> c = 0xA0 \<or>
     c = 0x1680 \<or> (0x2000 \<le> c \<and> c \<le> 0x200A) \<or> c = 0x2028 \<or> c = 0x2029 \<or>
     c = 0x202F \<or> c = 0x205F \<or> c = 0x3000 \<or> c = 0xFEFF"

definition trim :: "js_string \<Rightarrow> js_string" where
  "trim s = rev (dropWhile isWhiteSpace (rev (dropWhile isWhiteSpace s)))"

text \<open>\<open>s.split(sep)\<close> for a separator of one code unit; the empty string gives \<open>[""]\<close>.\<close>

fun split :: "js_string \<Rightarrow> 16 word \<Rightarrow> js_string list" where
  "split [] sep = [[]]"
| "split (c # cs) sep =
     (if c = sep then [] # split cs sep
      else (case split cs sep of [] \<Rightarrow> [[c]] | l # ls \<Rightarrow> (c # l) # ls))"

text \<open>\<open>s.substr(0, n)\<close>.\<close>

definition substr0 :: "js_string \<Rightarrow> nat \<Rightarrow> js_string" where
  "substr0 s n = take n s"

text \<open>
  \<open>parseInt(string)\<close> with no radix: leading white space is skipped, a sign is read, a
  \<open>0x\<close>/\<open>0X\<close> prefix selects radix 16, and the longest run of digits is the value; no digit
  gives \<open>NaN\<close>, here \<open>None\<close>. The value is kept as a mathematical integer: the server only
  compares it with 0, and rounding to a double never changes the sign of an integer.
\<close>

definition digitValue :: "16 word \<Rightarrow> nat option" where
  "digitValue c =
     (if 0x30 \<le> c \<and> c \<le> 0x39 then Some (unat c - 0x30)
      else if 0x61 \<le> c \<and> c \<le> 0x7A then Some (unat c - 0x61 + 10)
      else if 0x41 \<le> c \<and> c \<le> 0x5A then Some (unat c - 0x41 + 10)
      else None)"

definition isRadixDigit :: "nat \<Rightarrow> 16 word \<Rightarrow> bool" where
  "isRadixDigit R c = (case digitValue c of None \<Rightarrow> False | Some d \<Rightarrow> d < R)"

definition digitsValue :: "nat \<Rightarrow> js_string \<Rightarrow> nat" where
  "digitsValue R Z =
     foldl (\<lambda>acc c. acc * R + (case digitValue c of None \<Rightarrow> 0 | Some d \<Rightarrow> d)) 0 Z"

definition parseInt :: "js_string \<Rightarrow> int option" where
  "parseInt string =
     (let S = dropWhile isWhiteSpace string;
          sign = (case S of [] \<Rightarrow> 1 | c # _ \<Rightarrow> if c = 0x2D then - 1 else (1::int));
          S1 = (case S of [] \<Rightarrow> [] | c # cs \<Rightarrow> if c = 0x2B \<or> c = 0x2D then cs else S);
          hex = (take 2 S1 = js ''0x'' \<or> take 2 S1 = js ''0X'');
          R = (if hex then 16 else 10);
          S2 = (if hex then drop 2 S1 else S1);
          Z = takeWhile (isRadixDigit R) S2
      in if Z = [] then None else Some (sign * int (digitsValue R Z)))"

text \<open>\<open>n > 0\<close> on a number that may be \<open>NaN\<close>: every comparison with \<open>NaN\<close> is false.\<close>

definition gt0 :: "int option \<Rightarrow> bool" where
  "gt0 n = (case n of None \<Rightarrow> False | Some v \<Rightarrow> v > 0)"

section \<open>The command runner\<close>

text \<open>
  \<open>child_process.exec\<close> is outside the repository and is a parameter of the model. A call
  either reports through its callback, with \<open>(error, stdout, stderr)\<close>, or throws before
  it has started a process. The world \<open>'w\<close> is whatever the commands read and change.
  A process that never exits is not modelled: every call settles.
\<close>

datatype ExecException = ExecException (message: js_string)

datatype exec_report =
    Callback "ExecException option" js_string js_string
  | Throws js_string

type_synonym 'w exec = "js_string \<Rightarrow> 'w \<Rightarrow> exec_report \<times> 'w"

record exec_result =
  stdout :: js_string
  stderr :: js_string
  error :: "js_string option"

text \<open>A settled promise; an \<open>await\<close> on a rejected one throws its reason.\<close>

datatype 'a promise = Resolved 'a | Rejected js_string

text \<open>
  The state of the process: the world and the commands passed to \<open>exec\<close> so far, oldest
  first.
\<close>

type_synonym 'w proc = "'w \<times> js_string list"

type_synonym ('a, 's) task = "'s \<Rightarrow> 'a promise \<times> 's"

definition await :: "('a, 's) task \<Rightarrow> ('a \<Rightarrow> ('b, 's) task) \<Rightarrow> ('b, 's) task" where
  "await m k = (\<lambda>s. case m s of
                      (Resolved x, s') \<Rightarrow> k x s'
                    | (Rejected e, s') \<Rightarrow> (Rejected e, s'))"

definition returns :: "'a \<Rightarrow> ('a, 's) task" where
  "returns x = (\<lambda>s. (Resolved x, s))"

text \<open>
  \<open>execAsync\<close>: the promise resolves in the callback of \<open>exec\<close>; a throw of \<open>exec\<close> inside
  the executor rejects it.
\<close>

definition execAsync :: "'w exec \<Rightarrow> js_string \<Rightarrow> (exec_result, 'w proc) task" where
  "execAsync exec command = (\<lambda>(w, issued).
     case exec command w of
       (Callback err out errText, w') \<Rightarrow>
         (Resolved \<lparr>stdout = out, stderr = errText, error = map_option message err\<rparr>,
          (w', issued @ [command]))
     | (Throws e, w') \<Rightarrow> (Rejected e, (w', issued @ [command])))"

section \<open>The classifier\<close>

text \<open>
  The statuses, in the order of the enumeration of the source. Their display strings, icons
  and text classes are read by the renderer only.
\<close>

datatype RepoStatus =
    PathNotFound
  | NotAGitRepo
  | NoCommitsYet
  | UntrackedFiles
  | UncommittedChanges
  | UnpushedChanges
  | UnpulledChanges
  | Okay
  | UnknownError

definition env :: js_string where
  "env = js ''GIT_DISCOVERY_ACROSS_FILESYSTEM=true''"

text \<open>The five commands, as the template literals of the source build them.\<close>

definition lsCmd :: "js_string \<Rightarrow> js_string" where
  "lsCmd projectPath = js ''ls \"'' @ projectPath @ js ''\"''"

definition logCmd :: "js_string \<Rightarrow> js_string" where
  "logCmd gitCmd = env @ js '' '' @ gitCmd @ js '' log -1''"

definition statusCmd :: "js_string \<Rightarrow> js_string" where
  "statusCmd gitCmd = env @ js '' '' @ gitCmd @ js '' status --porcelain=v1''"

definition aheadCmd :: "js_string \<Rightarrow> js_string" where
  "aheadCmd gitCmd = env @ js '' '' @ gitCmd @ js ('' rev-list --count @'' @ ''{u}..HEAD'')"

definition behindCmd :: "js_string \<Rightarrow> js_string" where
  "behindCmd gitCmd = env @ js '' '' @ gitCmd @ js ('' rev-list --count HEAD..@'' @ ''{u}'')"

subsection \<open>The server with groups and a git directory\<close>

definition gitCmd :: "js_string \<Rightarrow> js_string \<Rightarrow> js_string" where
  "gitCmd projectPath gitDir =
     js ''git --work-tree=\"'' @ projectPath @ js ''\" --git-dir=\"'' @ gitDir @ js ''\"''"

definition parseStatuses :: "js_string \<Rightarrow> js_string list" where
  "parseStatuses out =
     filter (\<lambda>s. s \<noteq> []) (map (\<lambda>line. substr0 line 2) (split (trim out) 0x0A))"

definition getRepoStatus :: "'w exec \<Rightarrow> js_string \<Rightarrow> js_string \<Rightarrow> (RepoStatus, 'w proc) task" where
  "getRepoStatus exec projectPath gitDir =
     await (execAsync exec (lsCmd projectPath)) (\<lambda>existsCheck.
     if indexOf (stderr existsCheck) (js ''No such file or directory'') \<ge> 0
     then returns PathNotFound
     else
     await (execAsync exec (logCmd (gitCmd projectPath gitDir))) (\<lambda>logCheck.
     if indexOf (stderr logCheck) (js ''not a git repository'') \<ge> 0
     then returns NotAGitRepo
     else if indexOf (stderr logCheck) (js ''does not have any commits'') \<ge> 0
     then returns NoCommitsYet
     else if indexOf (stderr logCheck) (js ''fatal'') \<ge> 0
     then returns UnknownError
     else
     await (execAsync exec (statusCmd (gitCmd projectPath gitDir))) (\<lambda>statusCheck.
     if indexOf (stderr statusCheck) (js ''fatal'') \<ge> 0
     then returns UnknownError
     else
     let statuses = parseStatuses (stdout statusCheck) in
     if arrayIndexOf statuses (js ''??'') \<ge> 0
     then returns UntrackedFiles
     else if length statuses > 0
     then returns UncommittedChanges
     else
     await (execAsync exec (aheadCmd (gitCmd projectPath gitDir))) (\<lambda>aheadCheck.
     let countAhead = parseInt (stdout aheadCheck) in
     if gt0 countAhead
     then returns UnpushedChanges
     else
     await (execAsync exec (behindCmd (gitCmd projectPath gitDir))) (\<lambda>behindCheck.
     let countBehind = parseInt (stdout behindCheck) in
     if gt0 countBehind
     then returns UnpulledChanges
     else returns Okay)))))"

subsection \<open>The server with a flat project list\<close>

definition server_gitCmd :: "js_string \<Rightarrow> js_string" where
  "server_gitCmd path = js ''git -C \"'' @ path @ js ''\"''"

definition server_getRepoStatus :: "'w exec \<Rightarrow> js_string \<Rightarrow> (RepoStatus, 'w proc) task" where
  "server_getRepoStatus exec path =
     await (execAsync exec (lsCmd path)) (\<lambda>existsCheck.
     if indexOf (stderr existsCheck) (js ''No such file or directory'') \<ge> 0
     then returns PathNotFound
     else
     await (execAsync exec (logCmd (server_gitCmd path))) (\<lambda>logCheck.
     if indexOf (stderr logCheck) (js ''not a git repository'') \<ge> 0
     then returns NotAGitRepo
     else if indexOf (stderr logCheck) (js ''does not have any commits'') \<ge> 0
     then returns NoCommitsYet
     else
     await (execAsync exec (statusCmd (server_gitCmd path))) (\<lambda>statusCheck.
     let statuses = map (\<lambda>line. substr0 line 2) (split (trim (stdout statusCheck)) 0x0A) in
     if arrayIndexOf statuses (js ''??'') \<ge> 0
     then returns UntrackedFiles
     else if length statuses > 1
     then returns UncommittedChanges
     else
     await (execAsync exec (aheadCmd (server_gitCmd path))) (\<lambda>aheadCheck.
     let countAhead = parseInt (stdout aheadCheck) in
     if gt0 countAhead
     then returns UnpushedChanges
     else
     await (execAsync exec (behindCmd (server_gitCmd path))) (\<lambda>behindCheck.
     let countBehind = parseInt (stdout behindCheck) in
     if gt0 countBehind
     then returns UnpulledChanges
     else returns Okay)))))"

section \<open>The request listener\<close>

text \<open>
  \<open>try\<close>/\<open>catch\<close> and \<open>for ... of\<close> over tasks: a rejection leaves the loop and is
  handed to the nearest handler.
\<close>

definition try_catch :: "('a, 's) task \<Rightarrow> (js_string \<Rightarrow> ('a, 's) task) \<Rightarrow> ('a, 's) task" where
  "try_catch m handler = (\<lambda>s. case m s of
                                (Resolved x, s') \<Rightarrow> (Resolved x, s')
                              | (Rejected e, s') \<Rightarrow> handler e s')"

fun for_of :: "'a list \<Rightarrow> ('a \<Rightarrow> (unit, 's) task) \<Rightarrow> (unit, 's) task" where
  "for_of [] body = returns ()"
| "for_of (x # xs) body = await (body x) (\<lambda>_. for_of xs body)"

text \<open>
  The response: the header, the status code and the body. The body keeps what
  \<open>renderOutput\<close> puts on each card, the project's name and its status, and leaves the
  markup out.
\<close>

record 'b response =
  contentType :: js_string
  statusCode :: nat
  body :: 'b

subsection \<open>The server with groups and a git directory\<close>

text \<open>
  The project objects are shared between the configuration and its spread copy and are
  written to, so they live in a heap and are named by their addresses; every address holds
  a project object. The arrays and the group objects are never assigned to and are kept as
  values. The console keeps the message of each call of \<open>console.log\<close>.
\<close>

record IProject =
  name :: js_string
  path :: js_string
  gitDir :: "js_string option"
  repoStatus :: "RepoStatus option"

record IGroup =
  title :: js_string
  projects :: "nat list"

record IConfig =
  groups :: "IGroup list"

text \<open>The state of the server process.\<close>

record 'w node =
  proc :: "'w proc"
  heap :: "nat \<Rightarrow> IProject"
  console :: "js_string list"

text \<open>\<open>a || b\<close> on an optional string: \<open>undefined\<close> and the empty string are falsy.\<close>

definition js_or :: "js_string option \<Rightarrow> js_string \<Rightarrow> js_string" where
  "js_or a b = (case a of None \<Rightarrow> b | Some v \<Rightarrow> if v = [] then b else v)"

text \<open>
  The second argument of the call of \<open>getRepoStatus\<close> in the listener:
  \<open>project.gitDir || `${project.path}/.git`\<close>.
\<close>

definition resolveGitDir :: "IProject \<Rightarrow> js_string" where
  "resolveGitDir project = js_or (gitDir project) (path project @ js ''/.git'')"

definition on_proc :: "('a, 'w proc) task \<Rightarrow> ('a, 'w node) task" where
  "on_proc m = (\<lambda>s. case m (proc s) of (r, p') \<Rightarrow> (r, s\<lparr>proc := p'\<rparr>))"

definition set_repoStatus :: "nat \<Rightarrow> RepoStatus \<Rightarrow> (unit, 'w node) task" where
  "set_repoStatus project status =
     (\<lambda>s. (Resolved (),
            s\<lparr>heap := (heap s)(project := (heap s project)\<lparr>repoStatus := Some status\<rparr>)\<rparr>))"

definition console_log :: "js_string \<Rightarrow> (unit, 'w node) task" where
  "console_log msg = (\<lambda>s. (Resolved (), s\<lparr>console := console s @ [msg]\<rparr>))"

definition renderOutput ::
  "IConfig \<Rightarrow> (nat \<Rightarrow> IProject) \<Rightarrow> (js_string \<times> (js_string \<times> RepoStatus option) list) list" where
  "renderOutput config h =
     map (\<lambda>group. (title group,
                    map (\<lambda>project. (name (h project), repoStatus (h project))) (projects group)))
         (groups config)"

text \<open>The body of the inner loop of the listener: the \<open>try\<close> block and its handler.\<close>

definition classifyProject :: "'w exec \<Rightarrow> nat \<Rightarrow> (unit, 'w node) task" where
  "classifyProject exec project =
     try_catch
       (await (\<lambda>s. on_proc (getRepoStatus exec (path (heap s project))
                                (resolveGitDir (heap s project))) s)
          (\<lambda>status. set_repoStatus project status))
       (\<lambda>error. await (console_log (js ''Error while checking project status''))
          (\<lambda>_. set_repoStatus project UnknownError))"

text \<open>
  The spread \<open>{ ...config }\<close> makes a new object whose \<open>groups\<close> is the array of the
  configuration itself.
\<close>

definition requestListener ::
  "'w exec \<Rightarrow> IConfig \<Rightarrow>
   ((js_string \<times> (js_string \<times> RepoStatus option) list) list response, 'w node) task" where
  "requestListener exec config =
     (let configWithStatuses = \<lparr>groups = groups config\<rparr> in
      await (for_of (groups configWithStatuses) (\<lambda>group.
               for_of (projects group) (\<lambda>project. classifyProject exec project)))
        (\<lambda>_ s. (Resolved \<lparr>contentType = js ''text/html'', statusCode = 200,
                          body = renderOutput configWithStatuses (heap s)\<rparr>, s)))"

subsection \<open>The server with a flat project list\<close>

record server_IProject =
  server_name :: js_string
  server_path :: js_string

text \<open>
  The function that the listener maps over the projects: the \<open>try\<close> block and its
  handler. The tasks it gives are joined by \<open>Promise.all\<close>, which interleaves their
  commands; that scheduling is not modelled.
\<close>

definition server_classifyProject ::
  "'w exec \<Rightarrow> server_IProject \<Rightarrow> (server_IProject \<times> RepoStatus, 'w proc) task" where
  "server_classifyProject exec project =
     try_catch
       (await (server_getRepoStatus exec (server_path project))
          (\<lambda>status. returns (project, status)))
       (\<lambda>error. returns (project, UnknownError))"

section \<open>The decision policy in the words of the specification\<close>

text \<open>
  What the five commands report, and for each status the condition under which the
  specification lets it apply. The classification asked for is the first status of the
  severity order that applies.
\<close>

record probe_outcomes =
  exists_out :: exec_result
  log_out :: exec_result
  status_out :: exec_result
  ahead_out :: exec_result
  behind_out :: exec_result

fun applicable :: "probe_outcomes \<Rightarrow> RepoStatus \<Rightarrow> bool" where
  "applicable po PathNotFound =
     sublist (js ''No such file or directory'') (stderr (exists_out po))"
| "applicable po NotAGitRepo = sublist (js ''not a git repository'') (stderr (log_out po))"
| "applicable po NoCommitsYet =
     sublist (js ''does not have any commits'') (stderr (log_out po))"
| "applicable po UnknownError =
     (sublist (js ''fatal'') (stderr (log_out po)) \<or>
      sublist (js ''fatal'') (stderr (status_out po)))"
| "applicable po UntrackedFiles = (js ''??'' \<in> set (parseStatuses (stdout (status_out po))))"
| "applicable po UncommittedChanges = (parseStatuses (stdout (status_out po)) \<noteq> [])"
| "applicable po UnpushedChanges = gt0 (parseInt (stdout (ahead_out po)))"
| "applicable po UnpulledChanges = gt0 (parseInt (stdout (behind_out po)))"
| "applicable po Okay = True"

definition severity_order :: "RepoStatus list" where
  "severity_order =
     [PathNotFound, NotAGitRepo, NoCommitsYet, UnknownError, UntrackedFiles,
      UncommittedChanges, UnpushedChanges, UnpulledChanges, Okay]"

text \<open>The commands of one classification, in the order in which the source issues them.\<close>

definition probes :: "js_string \<Rightarrow> js_string \<Rightarrow> js_string list" where
  "probes p g =
     [lsCmd p, logCmd (gitCmd p g), statusCmd (gitCmd p g), aheadCmd (gitCmd p g),
      behindCmd (gitCmd p g)]"

definition server_probes :: "js_string \<Rightarrow> js_string list" where
  "server_probes p =
     [lsCmd p, logCmd (server_gitCmd p), statusCmd (server_gitCmd p),
      aheadCmd (server_gitCmd p), behindCmd (server_gitCmd p)]"

section \<open>Canned worlds for the examples\<close>

text \<open>
  A world that replays a list of reports, one for each call of \<open>exec\<close>, whatever the
  command; when the list is used up every command succeeds and prints nothing.
\<close>

definition scripted :: "exec_report list exec" where
  "scripted command w = (case w of [] \<Rightarrow> (Callback None [] [], []) | r # rs \<Rightarrow> (r, rs))"

definition succeeds :: "string \<Rightarrow> exec_report" where
  "succeeds out = Callback None (js out) []"

definition fails :: "string \<Rightarrow> exec_report" where
  "fails errText = Callback (Some (ExecException (js ''Command failed''))) [] (js errText)"

definition throws :: "string \<Rightarrow> exec_report" where
  "throws reason = Throws (js reason)"

text \<open>A configuration of one group with two projects, and the heap that holds them.\<close>

definition demo_config :: IConfig where
  "demo_config = \<lparr>groups = [\<lparr>title = js ''Personal Projects'', projects = [0, 1]\<rparr>]\<rparr>"

definition demo_heap :: "nat \<Rightarrow> IProject" where
  "demo_heap =
     (\<lambda>_. \<lparr>name = js ''Git Monitor'', path = js ''/projects/git-monitor'', gitDir = None,
            repoStatus = None\<rparr>)
     (1 := \<lparr>name = js ''Notes'', path = js ''/projects/notes'', gitDir = None,
            repoStatus = None\<rparr>)"

definition demo_node :: "exec_report list \<Rightarrow> exec_report list node" where
  "demo_node script = \<lparr>proc = (script, []), heap = demo_heap, console = []\<rparr>"

text \<open>One turn of the inner loop of the listener, as a change of the state.\<close>

abbreviation step :: "'w exec \<Rightarrow> nat \<Rightarrow> 'w node \<Rightarrow> 'w node" where
  "step exec \<equiv> (\<lambda>a s. snd (classifyProject exec a s))"

section \<open>Basic facts\<close>

lemma indexOf_from_ge0: "indexOf_from s n i \<ge> 0 \<longleftrightarrow> sublist n s"
  by (induction s arbitrary: i) (auto simp: sublist_Cons_right)

lemma indexOf_ge0_iff: "indexOf s n \<ge> 0 \<longleftrightarrow> sublist n s"
  by (simp add: indexOf_def indexOf_from_ge0)

lemma arrayIndexOf_from_ge0: "arrayIndexOf_from xs v i \<ge> 0 \<longleftrightarrow> v \<in> set xs"
  by (induction xs arbitrary: i) auto

lemma arrayIndexOf_ge0_iff: "arrayIndexOf xs v \<ge> 0 \<longleftrightarrow> v \<in> set xs"
  by (simp add: arrayIndexOf_def arrayIndexOf_from_ge0)

lemma js_Nil: "js [] = []"
  by (simp add: js_def)

lemma js_Cons: "js (c # cs) \<noteq> []"
  by (simp add: js_def)

lemma parseInt_empty: "parseInt [] = None"
  by (simp add: parseInt_def Let_def)

lemma parseInt_zero: "parseInt (js ''0\<newline>'') = Some 0"
  by (simp add: parseInt_def Let_def js_def isWhiteSpace_def isRadixDigit_def digitValue_def
      digitsValue_def)

lemma parseStatuses_empty: "parseStatuses [] = []"
  by (simp add: parseStatuses_def trim_def substr0_def)

lemma await_Resolved: "m s = (Resolved x, s') \<Longrightarrow> await m k s = k x s'"
  by (simp add: await_def)

lemma await_execAsync_Callback:
  "exec c w = (Callback err out errText, w') \<Longrightarrow>
   await (execAsync exec c) k (w, issued) =
     k \<lparr>stdout = out, stderr = errText, error = map_option message err\<rparr> (w', issued @ [c])"
  by (simp add: execAsync_def await_def)

lemma execAsync_scripted_succeeds:
  "execAsync scripted c (succeeds out # rs, issued) =
     (Resolved \<lparr>stdout = js out, stderr = [], error = None\<rparr>, (rs, issued @ [c]))"
  by (simp add: execAsync_def scripted_def succeeds_def)

lemma execAsync_scripted_fails:
  "execAsync scripted c (fails errText # rs, issued) =
     (Resolved \<lparr>stdout = [], stderr = js errText, error = Some (js ''Command failed'')\<rparr>,
      (rs, issued @ [c]))"
  by (simp add: execAsync_def scripted_def fails_def)

lemma execAsync_scripted_Nil:
  "execAsync scripted c ([], issued) =
     (Resolved \<lparr>stdout = [], stderr = [], error = None\<rparr>, ([], issued @ [c]))"
  by (simp add: execAsync_def scripted_def)

lemmas cmd_defs = lsCmd_def logCmd_def statusCmd_def aheadCmd_def behindCmd_def env_def

lemma probes_distinct: "distinct (probes p g)"
  by (simp add: probes_def cmd_defs js_def)

lemma server_probes_distinct: "distinct (server_probes p)"
  by (simp add: server_probes_def cmd_defs js_def)

subsection \<open>The classifiers on canned worlds\<close>

lemma getRepoStatus_scripted_clean:
  "getRepoStatus scripted p g
     (succeeds a # succeeds b # succeeds [] # succeeds ''0\<newline>'' #
      succeeds ''0\<newline>'' # rest, issued) =
   (Resolved Okay, (rest, issued @ probes p g))"
  by (simp add: getRepoStatus_def await_Resolved execAsync_scripted_succeeds returns_def
      indexOf_def arrayIndexOf_def parseStatuses_empty parseInt_zero gt0_def probes_def
      js_Nil js_Cons)

lemma getRepoStatus_scripted_quiet:
  "getRepoStatus scripted p g ([], issued) = (Resolved Okay, ([], issued @ probes p g))"
  by (simp add: getRepoStatus_def await_Resolved execAsync_scripted_Nil returns_def
      indexOf_def arrayIndexOf_def parseStatuses_empty parseInt_empty gt0_def probes_def
      js_def)

lemma getRepoStatus_scripted_not_a_repo:
  "getRepoStatus scripted p g
     (succeeds a #
      fails ''fatal: not a git repository (or any of the parent directories): .git'' # rest,
      issued) =
   (Resolved NotAGitRepo, (rest, issued @ [lsCmd p, logCmd (gitCmd p g)]))"
proof -
  have "sublist (js ''not a git repository'')
      (js ''fatal: not a git repository (or any of the parent directories): .git'')"
    by (simp add: js_def sublist_Cons_right)
  then show ?thesis
    by (simp add: getRepoStatus_def await_Resolved execAsync_scripted_succeeds
        execAsync_scripted_fails returns_def indexOf_ge0_iff js_Cons)
qed

lemma getRepoStatus_scripted_throws:
  "getRepoStatus scripted p g (throws e # rest, issued) =
     (Rejected (js e), (rest, issued @ [lsCmd p]))"
  by (simp add: getRepoStatus_def await_def execAsync_def scripted_def throws_def)

section \<open>Precedence of the statuses\<close>

text \<open>
  Claim C1. Whatever the five commands report, the classifier of the server with groups
  returns one status, and it is the first status of the severity order PathNotFound,
  NotAGitRepo, NoCommitsYet, UnknownError, UntrackedFiles, UncommittedChanges,
  UnpushedChanges, UnpulledChanges, Okay whose condition holds of the reports. In
  particular a missing working path gives PathNotFound whatever the later commands
  report. The reports \<open>r1\<close> to \<open>r5\<close> are those of the five commands run in the order of the
  source, each in the world the one before left.
\<close>

theorem getRepoStatus_first_applicable:
  assumes "execAsync exec (lsCmd p) s0 = (Resolved r1, s1)"
    and "execAsync exec (logCmd (gitCmd p g)) s1 = (Resolved r2, s2)"
    and "execAsync exec (statusCmd (gitCmd p g)) s2 = (Resolved r3, s3)"
    and "execAsync exec (aheadCmd (gitCmd p g)) s3 = (Resolved r4, s4)"
    and "execAsync exec (behindCmd (gitCmd p g)) s4 = (Resolved r5, s5)"
  shows "\<exists>st. fst (getRepoStatus exec p g s0) = Resolved st \<and>
              find (applicable \<lparr>exists_out = r1, log_out = r2, status_out = r3,
                                 ahead_out = r4, behind_out = r5\<rparr>) severity_order = Some st \<and>
              (sublist (js ''No such file or directory'') (stderr r1) \<longrightarrow>
                 st = PathNotFound)"
  using assms
  by (simp add: getRepoStatus_def await_Resolved returns_def Let_def
      indexOf_ge0_iff arrayIndexOf_ge0_iff severity_order_def)

theorem getRepoStatus_first_applicable_witness:
  "fst (getRepoStatus scripted (js ''/tmp/missing'') (js ''/tmp/missing/.git'')
          ([fails ''ls: cannot access /tmp/missing: No such file or directory''], []))
     = Resolved PathNotFound"
proof -
  let ?p = "js ''/tmp/missing''" and ?g = "js ''/tmp/missing/.git''"
  note h1 = execAsync_scripted_fails [of "lsCmd ?p"
      "''ls: cannot access /tmp/missing: No such file or directory''" "[]" "[]"]
  note h = execAsync_scripted_Nil
  show ?thesis
    using getRepoStatus_first_applicable [where exec = scripted and p = ?p and g = ?g,
        OF h1 h h h h]
    by (auto simp: js_def sublist_Cons_right)
qed

text \<open>
  Claim C10. When the listing command reports through its callback, the classifier returns
  PathNotFound exactly when the error text of the listing contains
  \<open>No such file or directory\<close>; with any other error text it goes on and issues the history
  command next.
\<close>

theorem getRepoStatus_PathNotFound_iff:
  assumes "exec (lsCmd p) w0 = (Callback e1 o1 x1, w1)"
  shows "(fst (getRepoStatus exec p g (w0, issued)) = Resolved PathNotFound \<longleftrightarrow>
            sublist (js ''No such file or directory'') x1) \<and>
         (\<not> sublist (js ''No such file or directory'') x1 \<longrightarrow>
            (\<exists>cmds. snd (snd (getRepoStatus exec p g (w0, issued))) =
                      issued @ lsCmd p # logCmd (gitCmd p g) # cmds))"
  using assms
  by (auto simp: getRepoStatus_def await_execAsync_Callback indexOf_ge0_iff
      await_def execAsync_def returns_def Let_def
      split: prod.splits exec_report.splits promise.splits)

theorem getRepoStatus_PathNotFound_iff_witness:
  "fst (getRepoStatus scripted (js ''/root/secret'') (js ''/root/secret/.git'')
          ([fails ''ls: cannot open directory /root/secret: Permission denied''], []))
     \<noteq> Resolved PathNotFound \<and>
   (\<exists>cmds. snd (snd (getRepoStatus scripted (js ''/root/secret'') (js ''/root/secret/.git'')
          ([fails ''ls: cannot open directory /root/secret: Permission denied''], []))) =
      lsCmd (js ''/root/secret'') #
      logCmd (gitCmd (js ''/root/secret'') (js ''/root/secret/.git'')) # cmds)"
proof -
  let ?p = "js ''/root/secret''" and ?g = "js ''/root/secret/.git''"
  let ?e = "''ls: cannot open directory /root/secret: Permission denied''"
  have h: "scripted (lsCmd ?p) [fails ?e] =
      (Callback (Some (ExecException (js ''Command failed''))) [] (js ?e), [])"
    by (simp add: scripted_def fails_def)
  have n: "\<not> sublist (js ''No such file or directory'') (js ?e)"
    by (simp add: js_def sublist_Cons_right)
  show ?thesis
    using getRepoStatus_PathNotFound_iff [where exec = scripted and g = ?g and issued = "[]",
        OF h] n
    by simp
qed

text \<open>The flat server opens with the same check.\<close>

lemma server_getRepoStatus_PathNotFound_iff:
  assumes "exec (lsCmd p) w0 = (Callback e1 o1 x1, w1)"
  shows "(fst (server_getRepoStatus exec p (w0, issued)) = Resolved PathNotFound \<longleftrightarrow>
            sublist (js ''No such file or directory'') x1) \<and>
         (\<not> sublist (js ''No such file or directory'') x1 \<longrightarrow>
            (\<exists>cmds. snd (snd (server_getRepoStatus exec p (w0, issued))) =
                      issued @ lsCmd p # logCmd (server_gitCmd p) # cmds))"
  using assms
  by (auto simp: server_getRepoStatus_def await_execAsync_Callback indexOf_ge0_iff
      await_def execAsync_def returns_def Let_def
      split: prod.splits exec_report.splits promise.splits)

text \<open>
  Claim C5. When the path exists and the error text of the history command says that the
  branch does not have any commits (and does not say that there is no repository), the
  classifier returns NoCommitsYet after two commands: the status command is never issued,
  so nothing the working tree holds can change the answer.
\<close>

theorem getRepoStatus_NoCommitsYet:
  assumes "exec (lsCmd p) w0 = (Callback e1 o1 x1, w1)"
    and "\<not> sublist (js ''No such file or directory'') x1"
    and "exec (logCmd (gitCmd p g)) w1 = (Callback e2 o2 x2, w2)"
    and "\<not> sublist (js ''not a git repository'') x2"
    and "sublist (js ''does not have any commits'') x2"
  shows "getRepoStatus exec p g (w0, issued) =
           (Resolved NoCommitsYet, (w2, issued @ [lsCmd p, logCmd (gitCmd p g)])) \<and>
         statusCmd (gitCmd p g) \<notin> set [lsCmd p, logCmd (gitCmd p g)]"
  using assms probes_distinct [of p g]
  by (auto simp: getRepoStatus_def await_execAsync_Callback indexOf_ge0_iff returns_def
      probes_def)

theorem getRepoStatus_NoCommitsYet_witness:
  "getRepoStatus scripted (js ''/srv/new'') (js ''/srv/new/.git'')
     ([succeeds ''README.md'',
       fails ''fatal: your current branch master does not have any commits yet'',
       succeeds ''?? README.md''], []) =
   (Resolved NoCommitsYet,
    ([succeeds ''?? README.md''],
     [lsCmd (js ''/srv/new''), logCmd (gitCmd (js ''/srv/new'') (js ''/srv/new/.git''))]))"
proof -
  let ?p = "js ''/srv/new''" and ?g = "js ''/srv/new/.git''"
  let ?log = "fails ''fatal: your current branch master does not have any commits yet''"
  have h1: "scripted (lsCmd ?p) [succeeds ''README.md'', ?log, succeeds ''?? README.md''] =
      (Callback None (js ''README.md'') [], [?log, succeeds ''?? README.md''])"
    by (simp add: scripted_def succeeds_def)
  have n1: "\<not> sublist (js ''No such file or directory'') []"
    by (simp add: js_def)
  have h2: "scripted (logCmd (gitCmd ?p ?g)) [?log, succeeds ''?? README.md''] =
      (Callback (Some (ExecException (js ''Command failed''))) []
         (js ''fatal: your current branch master does not have any commits yet''),
       [succeeds ''?? README.md''])"
    by (simp add: scripted_def fails_def)
  have n2: "\<not> sublist (js ''not a git repository'')
      (js ''fatal: your current branch master does not have any commits yet'')"
    by (simp add: js_def sublist_Cons_right)
  have y2: "sublist (js ''does not have any commits'')
      (js ''fatal: your current branch master does not have any commits yet'')"
    by (simp add: js_def sublist_Cons_right)
  show ?thesis
    using getRepoStatus_NoCommitsYet [where exec = scripted and issued = "[]",
        OF h1 n1 h2 n2 y2]
    by simp
qed

lemma server_getRepoStatus_NoCommitsYet:
  assumes "exec (lsCmd p) w0 = (Callback e1 o1 x1, w1)"
    and "\<not> sublist (js ''No such file or directory'') x1"
    and "exec (logCmd (server_gitCmd p)) w1 = (Callback e2 o2 x2, w2)"
    and "\<not> sublist (js ''not a git repository'') x2"
    and "sublist (js ''does not have any commits'') x2"
  shows "server_getRepoStatus exec p (w0, issued) =
           (Resolved NoCommitsYet, (w2, issued @ [lsCmd p, logCmd (server_gitCmd p)])) \<and>
         statusCmd (server_gitCmd p) \<notin> set [lsCmd p, logCmd (server_gitCmd p)]"
  using assms server_probes_distinct [of p]
  by (auto simp: server_getRepoStatus_def await_execAsync_Callback indexOf_ge0_iff
      returns_def server_probes_def)

section \<open>Counts that do not parse\<close>

text \<open>
  Claim C3. A count whose output does not parse as an integer is treated as 0. The promise
  is resolved, so no parse failure reaches the caller, and the status of the direction of
  an unreadable count is never returned. In a repository that is clean up to the status
  command the answer is then the one the other count alone gives, and with both counts
  unreadable it is Okay.
\<close>

theorem getRepoStatus_unparseable_count:
  assumes "exec (lsCmd p) w0 = (Callback e1 o1 x1, w1)"
    and "exec (logCmd (gitCmd p g)) w1 = (Callback e2 o2 x2, w2)"
    and "exec (statusCmd (gitCmd p g)) w2 = (Callback e3 o3 x3, w3)"
    and "exec (aheadCmd (gitCmd p g)) w3 = (Callback e4 o4 x4, w4)"
    and "exec (behindCmd (gitCmd p g)) w4 = (Callback e5 o5 x5, w5)"
  shows "(\<exists>st. fst (getRepoStatus exec p g (w0, issued)) = Resolved st) \<and>
         (parseInt o4 = None \<longrightarrow>
            fst (getRepoStatus exec p g (w0, issued)) \<noteq> Resolved UnpushedChanges) \<and>
         (parseInt o5 = None \<longrightarrow>
            fst (getRepoStatus exec p g (w0, issued)) \<noteq> Resolved UnpulledChanges) \<and>
         (\<not> sublist (js ''No such file or directory'') x1 \<and>
          \<not> sublist (js ''not a git repository'') x2 \<and>
          \<not> sublist (js ''does not have any commits'') x2 \<and>
          \<not> sublist (js ''fatal'') x2 \<and> \<not> sublist (js ''fatal'') x3 \<and>
          parseStatuses o3 = [] \<longrightarrow>
            (parseInt o4 = None \<longrightarrow>
               fst (getRepoStatus exec p g (w0, issued)) =
                 Resolved (if gt0 (parseInt o5) then UnpulledChanges else Okay)) \<and>
            (parseInt o5 = None \<longrightarrow>
               fst (getRepoStatus exec p g (w0, issued)) =
                 Resolved (if gt0 (parseInt o4) then UnpushedChanges else Okay)) \<and>
            (parseInt o4 = None \<and> parseInt o5 = None \<longrightarrow>
               fst (getRepoStatus exec p g (w0, issued)) = Resolved Okay))"
  using assms
  by (simp add: getRepoStatus_def await_execAsync_Callback indexOf_ge0_iff
      arrayIndexOf_ge0_iff returns_def Let_def gt0_def)

theorem getRepoStatus_unparseable_count_witness:
  "fst (getRepoStatus scripted (js ''/srv/local'') (js ''/srv/local/.git'')
          ([succeeds ''README.md'', succeeds ''commit 1f3a'', succeeds [],
            fails ''fatal: no upstream configured for branch master'',
            fails ''fatal: no upstream configured for branch master''], []))
     = Resolved Okay"
proof -
  let ?p = "js ''/srv/local''" and ?g = "js ''/srv/local/.git''"
  let ?r1 = "succeeds ''README.md''" and ?r2 = "succeeds ''commit 1f3a''"
  let ?r3 = "succeeds []"
  let ?e = "''fatal: no upstream configured for branch master''"
  let ?failure = "Some (ExecException (js ''Command failed''))"
  have h1: "scripted (lsCmd ?p) [?r1, ?r2, ?r3, fails ?e, fails ?e] =
      (Callback None (js ''README.md'') [], [?r2, ?r3, fails ?e, fails ?e])"
    by (simp add: scripted_def succeeds_def)
  have h2: "scripted (logCmd (gitCmd ?p ?g)) [?r2, ?r3, fails ?e, fails ?e] =
      (Callback None (js ''commit 1f3a'') [], [?r3, fails ?e, fails ?e])"
    by (simp add: scripted_def succeeds_def)
  have h3: "scripted (statusCmd (gitCmd ?p ?g)) [?r3, fails ?e, fails ?e] =
      (Callback None [] [], [fails ?e, fails ?e])"
    by (simp add: scripted_def succeeds_def js_Nil)
  have h4: "scripted (aheadCmd (gitCmd ?p ?g)) [fails ?e, fails ?e] =
      (Callback ?failure [] (js ?e), [fails ?e])"
    by (simp add: scripted_def fails_def)
  have h5: "scripted (behindCmd (gitCmd ?p ?g)) [fails ?e] =
      (Callback ?failure [] (js ?e), [])"
    by (simp add: scripted_def fails_def)
  show ?thesis
    using getRepoStatus_unparseable_count [where exec = scripted and issued = "[]",
        OF h1 h2 h3 h4 h5]
    by (simp add: parseInt_empty parseStatuses_empty gt0_def js_Cons)
qed

text \<open>The flat server treats the two counts in the same way.\<close>

lemma server_getRepoStatus_unparseable_count:
  assumes "exec (lsCmd p) w0 = (Callback e1 o1 x1, w1)"
    and "exec (logCmd (server_gitCmd p)) w1 = (Callback e2 o2 x2, w2)"
    and "exec (statusCmd (server_gitCmd p)) w2 = (Callback e3 o3 x3, w3)"
    and "exec (aheadCmd (server_gitCmd p)) w3 = (Callback e4 o4 x4, w4)"
    and "exec (behindCmd (server_gitCmd p)) w4 = (Callback e5 o5 x5, w5)"
    and "statuses = map (\<lambda>line. substr0 line 2) (split (trim o3) 0x0A)"
  shows "(\<exists>st. fst (server_getRepoStatus exec p (w0, issued)) = Resolved st) \<and>
         (parseInt o4 = None \<longrightarrow>
            fst (server_getRepoStatus exec p (w0, issued)) \<noteq> Resolved UnpushedChanges) \<and>
         (parseInt o5 = None \<longrightarrow>
            fst (server_getRepoStatus exec p (w0, issued)) \<noteq> Resolved UnpulledChanges) \<and>
         (\<not> sublist (js ''No such file or directory'') x1 \<and>
          \<not> sublist (js ''not a git repository'') x2 \<and>
          \<not> sublist (js ''does not have any commits'') x2 \<and>
          js ''??'' \<notin> set statuses \<and> length statuses \<le> 1 \<longrightarrow>
            (parseInt o4 = None \<longrightarrow>
               fst (server_getRepoStatus exec p (w0, issued)) =
                 Resolved (if gt0 (parseInt o5) then UnpulledChanges else Okay)) \<and>
            (parseInt o5 = None \<longrightarrow>
               fst (server_getRepoStatus exec p (w0, issued)) =
                 Resolved (if gt0 (parseInt o4) then UnpushedChanges else Okay)) \<and>
            (parseInt o4 = None \<and> parseInt o5 = None \<longrightarrow>
               fst (server_getRepoStatus exec p (w0, issued)) = Resolved Okay))"
  using assms
  by (simp add: server_getRepoStatus_def await_execAsync_Callback indexOf_ge0_iff
      arrayIndexOf_ge0_iff returns_def Let_def gt0_def)

section \<open>Untracked and uncommitted files\<close>

text \<open>
  Claim C2. The claim asks for UncommittedChanges whenever the status command lists an
  entry and none is untracked, a single modified tracked file included. The flat server
  does not filter the blank entry that an empty output leaves and tests for more than one
  entry instead: with one modified tracked file and no divergence from the upstream it
  goes on to the two counts and answers Okay.
\<close>

theorem server_getRepoStatus_single_modified_file:
  "server_getRepoStatus scripted (js ''/srv/repo'')
     ([succeeds ''notes.txt'', succeeds ''commit 1f3a'', succeeds '' M notes.txt\<newline>'',
       succeeds ''0\<newline>'', succeeds ''0\<newline>''], []) =
   (Resolved Okay, ([], server_probes (js ''/srv/repo'')))"
  by (simp add: server_getRepoStatus_def await_Resolved execAsync_scripted_succeeds
        returns_def indexOf_def arrayIndexOf_def server_probes_def Let_def js_def
        trim_def isWhiteSpace_def substr0_def parseInt_def gt0_def isRadixDigit_def
        digitValue_def digitsValue_def)

text \<open>
  The server with groups filters the blank entries and tests for at least one: it does what
  the claim says, for every output of the status command, and on the same reports answers
  UncommittedChanges.
\<close>

lemma getRepoStatus_dirty:
  assumes "exec (lsCmd p) w0 = (Callback e1 o1 x1, w1)"
    and "\<not> sublist (js ''No such file or directory'') x1"
    and "exec (logCmd (gitCmd p g)) w1 = (Callback e2 o2 x2, w2)"
    and "\<not> sublist (js ''not a git repository'') x2"
    and "\<not> sublist (js ''does not have any commits'') x2"
    and "\<not> sublist (js ''fatal'') x2"
    and "exec (statusCmd (gitCmd p g)) w2 = (Callback e3 o3 x3, w3)"
    and "\<not> sublist (js ''fatal'') x3"
  shows "(js ''??'' \<in> set (parseStatuses o3) \<longrightarrow>
            fst (getRepoStatus exec p g (w0, issued)) = Resolved UntrackedFiles) \<and>
         (js ''??'' \<notin> set (parseStatuses o3) \<and> parseStatuses o3 \<noteq> [] \<longrightarrow>
            fst (getRepoStatus exec p g (w0, issued)) = Resolved UncommittedChanges)"
  using assms
  by (simp add: getRepoStatus_def await_execAsync_Callback indexOf_ge0_iff
      arrayIndexOf_ge0_iff returns_def Let_def)

lemma getRepoStatus_single_modified_file:
  "fst (getRepoStatus scripted (js ''/srv/repo'') (js ''/srv/repo/.git'')
     ([succeeds ''notes.txt'', succeeds ''commit 1f3a'', succeeds '' M notes.txt\<newline>'',
       succeeds ''0\<newline>'', succeeds ''0\<newline>''], [])) =
   Resolved UncommittedChanges"
  by (simp add: getRepoStatus_def await_Resolved execAsync_scripted_succeeds
        returns_def indexOf_def arrayIndexOf_def Let_def js_def parseStatuses_def
        trim_def isWhiteSpace_def substr0_def)

lemma getRepoStatus_untracked_and_modified:
  "fst (getRepoStatus scripted (js ''/srv/repo'') (js ''/srv/repo/.git'')
     ([succeeds ''notes.txt'', succeeds ''commit 1f3a'',
       succeeds '' M notes.txt\<newline>?? draft.txt\<newline>''], [])) =
   Resolved UntrackedFiles"
  by (simp add: getRepoStatus_def await_Resolved execAsync_scripted_succeeds
        returns_def indexOf_def arrayIndexOf_def Let_def js_def parseStatuses_def
        trim_def isWhiteSpace_def substr0_def)

lemma server_getRepoStatus_untracked_and_modified:
  "fst (server_getRepoStatus scripted (js ''/srv/repo'')
     ([succeeds ''notes.txt'', succeeds ''commit 1f3a'',
       succeeds '' M notes.txt\<newline>?? draft.txt\<newline>''], [])) =
   Resolved UntrackedFiles"
  by (simp add: server_getRepoStatus_def await_Resolved execAsync_scripted_succeeds
        returns_def indexOf_def arrayIndexOf_def Let_def js_def
        trim_def isWhiteSpace_def substr0_def)

section \<open>The commands of one classification\<close>

lemma getRepoStatus_issued_prefix:
  "\<exists>cmds. snd (snd (getRepoStatus exec p g (w, issued))) = issued @ cmds \<and>
          prefix cmds (probes p g)"
  by (auto simp: getRepoStatus_def await_def execAsync_def returns_def Let_def probes_def
      split: prod.splits exec_report.splits promise.splits)

lemma server_getRepoStatus_issued_prefix:
  "\<exists>cmds. snd (snd (server_getRepoStatus exec p (w, issued))) = issued @ cmds \<and>
          prefix cmds (server_probes p)"
  by (auto simp: server_getRepoStatus_def await_def execAsync_def returns_def Let_def
      server_probes_def split: prod.splits exec_report.splits promise.splits)

lemma prefix_of_distinct5:
  assumes "prefix cmds ps" and "distinct ps" and "length ps = 5"
  shows "distinct cmds \<and> length cmds \<le> 5"
  using assms prefix_length_le [of cmds ps] by (auto simp: prefix_def)

text \<open>
  Claim C7. Whatever \<open>exec\<close> does, throwing included, the commands that one call of the
  classifier issues are an initial part of the list of its five commands, in that order.
  The five are pairwise different, so none is issued twice, and there are at most six of
  them (in fact at most five: the listing and four git commands).
\<close>

theorem getRepoStatus_commands:
  "\<exists>cmds. snd (snd (getRepoStatus exec p g (w, issued))) = issued @ cmds \<and>
          prefix cmds (probes p g) \<and> distinct (probes p g) \<and> distinct cmds \<and>
          length cmds \<le> 6"
proof -
  obtain cmds where c: "snd (snd (getRepoStatus exec p g (w, issued))) = issued @ cmds"
    "prefix cmds (probes p g)"
    using getRepoStatus_issued_prefix [of exec p g w issued] by auto
  have "length (probes p g) = 5"
    by (simp add: probes_def)
  with c(2) probes_distinct have "distinct cmds \<and> length cmds \<le> 5"
    by (rule prefix_of_distinct5)
  with c probes_distinct [of p g] show ?thesis
    by auto
qed

lemma server_getRepoStatus_commands:
  "\<exists>cmds. snd (snd (server_getRepoStatus exec p (w, issued))) = issued @ cmds \<and>
          prefix cmds (server_probes p) \<and> distinct (server_probes p) \<and> distinct cmds \<and>
          length cmds \<le> 6"
proof -
  obtain cmds where c: "snd (snd (server_getRepoStatus exec p (w, issued))) = issued @ cmds"
    "prefix cmds (server_probes p)"
    using server_getRepoStatus_issued_prefix [of exec p w issued] by auto
  have "length (server_probes p) = 5"
    by (simp add: server_probes_def)
  with c(2) server_probes_distinct have "distinct cmds \<and> length cmds \<le> 5"
    by (rule prefix_of_distinct5)
  with c server_probes_distinct [of p] show ?thesis
    by auto
qed

section \<open>The command runner\<close>

text \<open>
  Claim C6, as amended. Whatever the command, \<open>execAsync\<close> settles as \<open>exec\<close> does.
  When \<open>exec\<close> reports through its callback, as it does for a command that exits with a
  nonzero code and for an executable the shell does not find, the promise resolves: the
  failure is the \<open>error\<close> field of the result, next to the captured output and error
  text. The runner has no handler of its own, so when \<open>exec\<close> throws the promise is
  rejected with what was thrown; it is rejected in no other case.
\<close>

theorem execAsync_settles:
  "(exec command w = (Callback err out errText, w') \<longrightarrow>
      execAsync exec command (w, issued) =
        (Resolved \<lparr>stdout = out, stderr = errText, error = map_option message err\<rparr>,
         (w', issued @ [command]))) \<and>
   (exec command w = (Throws e, w') \<longrightarrow>
      execAsync exec command (w, issued) = (Rejected e, (w', issued @ [command]))) \<and>
   ((\<exists>e' s. execAsync exec command (w, issued) = (Rejected e', s)) \<longleftrightarrow>
    (\<exists>e' w''. exec command w = (Throws e', w'')))"
  by (auto simp: execAsync_def split: prod.splits exec_report.splits)

theorem execAsync_settles_witness:
  "execAsync scripted (js ''git status'') ([fails ''/bin/sh: git: not found''], []) =
     (Resolved \<lparr>stdout = [], stderr = js ''/bin/sh: git: not found'',
                error = Some (js ''Command failed'')\<rparr>, ([], [js ''git status''])) \<and>
   execAsync scripted (js ''git log -1'')
     ([fails ''fatal: not a git repository (or any of the parent directories): .git''], []) =
     (Resolved \<lparr>stdout = [],
                stderr = js ''fatal: not a git repository (or any of the parent directories): .git'',
                error = Some (js ''Command failed'')\<rparr>, ([], [js ''git log -1'']))"
proof -
  let ?failure = "Some (ExecException (js ''Command failed''))"
  let ?e1 = "''/bin/sh: git: not found''"
  let ?e2 = "''fatal: not a git repository (or any of the parent directories): .git''"
  have h1: "scripted (js ''git status'') [fails ?e1] = (Callback ?failure [] (js ?e1), [])"
    by (simp add: scripted_def fails_def)
  have h2: "scripted (js ''git log -1'') [fails ?e2] = (Callback ?failure [] (js ?e2), [])"
    by (simp add: scripted_def fails_def)
  show ?thesis
    using execAsync_settles [where exec = scripted and command = "js ''git status''"
        and w = "[fails ?e1]" and err = ?failure and out = "[]" and errText = "js ?e1"
        and w' = "[]" and issued = "[]"]
      execAsync_settles [where exec = scripted and command = "js ''git log -1''"
        and w = "[fails ?e2]" and err = ?failure and out = "[]" and errText = "js ?e2"
        and w' = "[]" and issued = "[]"]
      h1 h2
    by simp
qed

text \<open>
  The claim as stated fails: \<open>exec\<close> can throw inside the executor of the promise, for
  instance on a command string that it refuses, such as one that holds a NUL code unit, and
  then the promise of the runner is rejected, so that an \<open>await\<close> on it throws.
\<close>

theorem execAsync_rejects_on_throw:
  "execAsync scripted (lsCmd [0x2F, 0x61, 0x00, 0x62])
     ([throws ''The argument must be a string without null bytes''], []) =
   (Rejected (js ''The argument must be a string without null bytes''),
    ([], [lsCmd [0x2F, 0x61, 0x00, 0x62]]))"
  by (simp add: execAsync_def scripted_def throws_def)

section \<open>The project resolver\<close>

text \<open>
  Claim C8, as amended. A git directory that is configured and not empty is passed on
  verbatim; when none is configured, or the configured one is the empty string, the working
  path with \<open>/.git\<close> appended is passed on. The resolution is a function of the project
  entry alone: it checks nothing and issues no command.
\<close>

theorem resolveGitDir_cases:
  "(gitDir project = Some d \<and> d \<noteq> [] \<longrightarrow> resolveGitDir project = d) \<and>
   (gitDir project = None \<or> gitDir project = Some [] \<longrightarrow>
      resolveGitDir project = path project @ js ''/.git'')"
  by (auto simp: resolveGitDir_def js_or_def)

theorem resolveGitDir_cases_witness:
  "resolveGitDir \<lparr>name = js ''YADM'', path = js ''/projects/yadm'',
                   gitDir = Some (js ''/projects/yadm-git''), repoStatus = None\<rparr> =
     js ''/projects/yadm-git'' \<and>
   resolveGitDir \<lparr>name = js ''Notes'', path = js ''/projects/notes'', gitDir = None,
                   repoStatus = None\<rparr> =
     js ''/projects/notes'' @ js ''/.git''"
  using resolveGitDir_cases [of "\<lparr>name = js ''YADM'', path = js ''/projects/yadm'',
                   gitDir = Some (js ''/projects/yadm-git''), repoStatus = None\<rparr>"
        "js ''/projects/yadm-git''"]
    resolveGitDir_cases [of "\<lparr>name = js ''Notes'', path = js ''/projects/notes'',
        gitDir = None, repoStatus = None\<rparr>"]
  by (simp add: js_def)

text \<open>
  The claim as stated fails for an override that is set to the empty string: \<open>||\<close> takes it
  for a missing one.
\<close>

theorem resolveGitDir_empty_override:
  "gitDir \<lparr>name = js ''YADM'', path = js ''/projects/yadm'', gitDir = Some [],
            repoStatus = None\<rparr> = Some [] \<and>
   resolveGitDir \<lparr>name = js ''YADM'', path = js ''/projects/yadm'', gitDir = Some [],
                   repoStatus = None\<rparr> = js ''/projects/yadm/.git'' \<and>
   resolveGitDir \<lparr>name = js ''YADM'', path = js ''/projects/yadm'', gitDir = Some [],
                   repoStatus = None\<rparr> \<noteq> []"
  by (simp add: resolveGitDir_def js_or_def js_def)

section \<open>One pass of the listener\<close>

lemma classifyProject_unfold:
  "classifyProject exec a s =
     (case getRepoStatus exec (path (heap s a)) (resolveGitDir (heap s a)) (proc s) of
        (Resolved st, p') \<Rightarrow>
          (Resolved (),
           s\<lparr>proc := p', heap := (heap s)(a := (heap s a)\<lparr>repoStatus := Some st\<rparr>)\<rparr>)
      | (Rejected e, p') \<Rightarrow>
          (Resolved (),
           s\<lparr>proc := p',
             console := console s @ [js ''Error while checking project status''],
             heap := (heap s)(a := (heap s a)\<lparr>repoStatus := Some UnknownError\<rparr>)\<rparr>))"
  by (simp add: classifyProject_def try_catch_def await_def on_proc_def set_repoStatus_def
      console_log_def split: prod.splits promise.splits)

lemma classifyProject_resolves: "fst (classifyProject exec a s) = Resolved ()"
  by (simp add: classifyProject_unfold split: prod.splits promise.splits)

lemma classifyProject_status:
  "repoStatus (heap (snd (classifyProject exec a s)) a) =
     Some (case fst (getRepoStatus exec (path (heap s a)) (resolveGitDir (heap s a)) (proc s))
           of Resolved st \<Rightarrow> st | Rejected e \<Rightarrow> UnknownError)"
  by (simp add: classifyProject_unfold split: prod.splits promise.splits)

lemma classifyProject_other:
  "b \<noteq> a \<Longrightarrow> heap (snd (classifyProject exec a s)) b = heap s b"
  by (simp add: classifyProject_unfold split: prod.splits promise.splits)

lemma classifyProject_frame:
  "name (heap (snd (classifyProject exec a s)) b) = name (heap s b) \<and>
   path (heap (snd (classifyProject exec a s)) b) = path (heap s b) \<and>
   gitDir (heap (snd (classifyProject exec a s)) b) = gitDir (heap s b)"
  by (simp add: classifyProject_unfold split: prod.splits promise.splits)

lemma for_of_total:
  assumes "\<And>x s. fst (f x s) = Resolved ()"
  shows "for_of xs f s = (Resolved (), fold (\<lambda>x s. snd (f x s)) xs s)"
proof (induction xs arbitrary: s)
  case Nil
  show ?case by (simp add: returns_def)
next
  case (Cons x xs)
  obtain s' where "f x s = (Resolved (), s')"
    using assms [of x s] by (cases "f x s") auto
  with Cons show ?case by (simp add: await_def)
qed

lemma for_of_classify:
  "for_of xs (classifyProject exec) s = (Resolved (), fold (step exec) xs s)"
  by (rule for_of_total) (rule classifyProject_resolves)

lemma for_of_groups:
  "for_of gs (\<lambda>group. for_of (projects group) (classifyProject exec)) s =
     (Resolved (), fold (step exec) (concat (map projects gs)) s)"
proof -
  have "for_of gs (\<lambda>group. for_of (projects group) (classifyProject exec)) s =
      (Resolved (),
       fold (\<lambda>group s. snd (for_of (projects group) (classifyProject exec) s)) gs s)"
    by (rule for_of_total) (simp add: for_of_classify)
  also have "(\<lambda>group s. snd (for_of (projects group) (classifyProject exec) s)) =
      (\<lambda>group. fold (step exec) (projects group))"
    by (simp add: for_of_classify)
  also have "fold (\<lambda>group. fold (step exec) (projects group)) gs s =
      fold (step exec) (concat (map projects gs)) s"
    by (induction gs arbitrary: s) simp_all
  finally show ?thesis .
qed

lemma requestListener_unfold:
  "requestListener exec config s =
     (let s' = fold (step exec) (concat (map projects (groups config))) s in
      (Resolved \<lparr>contentType = js ''text/html'', statusCode = 200,
                 body = renderOutput config (heap s')\<rparr>, s'))"
  by (simp add: requestListener_def Let_def await_def for_of_groups renderOutput_def)

lemma fold_step_frame:
  "name (heap (fold (step exec) xs s) b) = name (heap s b) \<and>
   path (heap (fold (step exec) xs s) b) = path (heap s b) \<and>
   gitDir (heap (fold (step exec) xs s) b) = gitDir (heap s b)"
  by (induction xs arbitrary: s) (simp_all add: classifyProject_frame)

lemma fold_step_other:
  "b \<notin> set xs \<Longrightarrow> heap (fold (step exec) xs s) b = heap s b"
  by (induction xs arbitrary: s) (simp_all add: classifyProject_other)

lemma demo_projects: "concat (map projects (groups demo_config)) = [0, 1]"
  by (simp add: demo_config_def)

text \<open>
  Claim C9, as amended. A pass of the listener leaves the name, the path and the git
  directory of every project object as they were; the groups and their project lists are
  never assigned to. What the pass does write is the \<open>repoStatus\<close> field of the project
  objects, and these are the objects of the configuration loaded at startup: the spread copy
  shares them.
\<close>

theorem requestListener_frame:
  "name (heap (snd (requestListener exec config s)) a) = name (heap s a) \<and>
   path (heap (snd (requestListener exec config s)) a) = path (heap s a) \<and>
   gitDir (heap (snd (requestListener exec config s)) a) = gitDir (heap s a)"
  by (simp add: requestListener_unfold Let_def fold_step_frame)

text \<open>
  The claim as stated fails: a project object of the configuration has no status before
  the first request and has one after it.
\<close>

theorem requestListener_writes_repoStatus:
  "repoStatus (heap (demo_node []) 0) = None \<and>
   repoStatus (heap (snd (requestListener scripted demo_config (demo_node []))) 0) = Some Okay \<and>
   heap (snd (requestListener scripted demo_config (demo_node []))) 0 \<noteq> heap (demo_node []) 0"
proof -
  have "repoStatus (heap (demo_node []) 0) = None \<and>
      repoStatus (heap (snd (requestListener scripted demo_config (demo_node []))) 0) = Some Okay"
    by (simp add: requestListener_unfold demo_projects classifyProject_unfold demo_node_def
        demo_heap_def getRepoStatus_scripted_quiet)
  then show ?thesis
    by auto
qed

text \<open>
  Claim C4. A pass of the listener always ends in a response with status 200 that shows
  every project. The status of each project is the one its own classification returns at
  its turn, and UnknownError when that classification throws; what happens to the other
  projects does not enter. The project objects of a configuration are pairwise different,
  which is what the second assumption says of the project \<open>a\<close>.
\<close>

theorem requestListener_isolates_failures:
  assumes "concat (map projects (groups config)) = before @ a # after"
    and "a \<notin> set after"
  shows "\<exists>resp s'. requestListener exec config s = (Resolved resp, s') \<and>
           statusCode resp = 200 \<and> body resp = renderOutput config (heap s') \<and>
           repoStatus (heap s' a) =
             Some (case fst (getRepoStatus exec (path (heap s a)) (resolveGitDir (heap s a))
                              (proc (snd (for_of before (classifyProject exec) s))))
                   of Resolved st \<Rightarrow> st | Rejected e \<Rightarrow> UnknownError)"
proof -
  let ?mid = "fold (step exec) before s"
  let ?s' = "fold (step exec) (before @ a # after) s"
  have mid: "snd (for_of before (classifyProject exec) s) = ?mid"
    by (simp add: for_of_classify)
  have p: "path (heap ?mid a) = path (heap s a)"
    by (simp add: fold_step_frame)
  have g: "gitDir (heap ?mid a) = gitDir (heap s a)"
    by (simp add: fold_step_frame)
  have same: "path (heap ?mid a) = path (heap s a)"
    "resolveGitDir (heap ?mid a) = resolveGitDir (heap s a)"
    by (simp_all add: resolveGitDir_def p g)
  have "heap ?s' a = heap (step exec a ?mid) a"
    using assms(2) by (simp add: fold_step_other)
  then have "repoStatus (heap ?s' a) =
      Some (case fst (getRepoStatus exec (path (heap s a)) (resolveGitDir (heap s a))
                       (proc ?mid))
            of Resolved st \<Rightarrow> st | Rejected e \<Rightarrow> UnknownError)"
    by (simp add: classifyProject_status same)
  then show ?thesis
    using assms(1) by (simp add: requestListener_unfold Let_def mid)
qed

text \<open>
  The scenario of the specification: the first project is valid and clean, the second
  points at a directory that is no repository.
\<close>

theorem requestListener_isolates_failures_witness:
  "\<exists>s'. requestListener scripted demo_config
     (demo_node [succeeds ''README.md'', succeeds ''commit 1f3a'', succeeds [],
                 succeeds ''0\<newline>'', succeeds ''0\<newline>'', succeeds ''todo.txt'',
                 fails ''fatal: not a git repository (or any of the parent directories): .git'']) =
   (Resolved \<lparr>contentType = js ''text/html'', statusCode = 200,
              body = [(js ''Personal Projects'',
                       [(js ''Git Monitor'', Some Okay), (js ''Notes'', Some NotAGitRepo)])]\<rparr>,
    s')"
proof -
  have h1: "concat (map projects (groups demo_config)) = [0] @ 1 # []"
    by (simp add: demo_config_def)
  have h2: "(1::nat) \<notin> set []"
    by simp
  show ?thesis
    using requestListener_isolates_failures [where exec = scripted, OF h1 h2]
    by (simp add: requestListener_unfold demo_projects classifyProject_unfold demo_node_def
        demo_heap_def resolveGitDir_def js_or_def getRepoStatus_scripted_clean
        getRepoStatus_scripted_not_a_repo renderOutput_def demo_config_def)
qed

text \<open>
  An exception in the classification of the first project: it is shown with UnknownError,
  the message is logged, and the second project is classified as usual.
\<close>

lemma requestListener_survives_exception:
  "\<exists>s'. requestListener scripted demo_config
     (demo_node [throws ''spawn E2BIG'', succeeds ''todo.txt'', succeeds ''commit 77c0'',
                 succeeds [], succeeds ''0\<newline>'', succeeds ''0\<newline>'']) =
   (Resolved \<lparr>contentType = js ''text/html'', statusCode = 200,
              body = [(js ''Personal Projects'',
                       [(js ''Git Monitor'', Some UnknownError), (js ''Notes'', Some Okay)])]\<rparr>,
    s') \<and> console s' = [js ''Error while checking project status'']"
  by (simp add: requestListener_unfold demo_projects classifyProject_unfold demo_node_def
      demo_heap_def resolveGitDir_def js_or_def getRepoStatus_scripted_clean
      getRepoStatus_scripted_throws renderOutput_def demo_config_def)

subsection \<open>The flat server\<close>

lemma server_classifyProject_unfold:
  "server_classifyProject exec project s =
     (case server_getRepoStatus exec (server_path project) s of
        (Resolved st, s') \<Rightarrow> (Resolved (project, st), s')
      | (Rejected e, s') \<Rightarrow> (Resolved (project, UnknownError), s'))"
  by (simp add: server_classifyProject_def try_catch_def await_def returns_def
      split: prod.splits promise.splits)

lemma server_classifyProject_resolves:
  "\<exists>st s'. server_classifyProject exec x s = (Resolved (x, st), s')"
proof -
  obtain r s' where "server_getRepoStatus exec (server_path x) s = (r, s')"
    by (cases "server_getRepoStatus exec (server_path x) s") auto
  then show ?thesis
    by (cases r) (simp_all add: server_classifyProject_unfold)
qed

text \<open>
  The task of a project of the flat server never rejects either: a classification that
  throws gives UnknownError for that project.
\<close>

lemma server_classifyProject_status:
  "fst (server_classifyProject exec x s) =
     Resolved (x, case fst (server_getRepoStatus exec (server_path x) s) of
                     Resolved st \<Rightarrow> st | Rejected e \<Rightarrow> UnknownError)"
  by (simp add: server_classifyProject_unfold split: prod.splits promise.splits)

end
